theory Spec2Isabelle
  imports Main
begin

section \<open>Python values\<close>

text \<open>
  A Python \<open>str\<close> is a sequence of Unicode code points, so it is modelled as a list of
  natural numbers: \<open>len\<close> is \<open>length\<close> and the slice \<open>s[:n]\<close> is \<open>take n s\<close>, both counted
  in code points as Python counts them. \<open>lit\<close> turns an ASCII literal of the source into
  such a list.
\<close>

type_synonym str = "nat list"

definition lit :: "string \<Rightarrow> str" where
  "lit s = map of_char s"

text \<open>
  The values \<open>json.loads\<close> and \<open>response.json()\<close> produce: \<open>None\<close>, \<open>bool\<close>, \<open>int\<close>,
  \<open>float\<close>, \<open>str\<close>, \<open>list\<close> and \<open>dict\<close>. A dict is an association list whose first binding
  of a key is the dict's entry. A float is carried through and never computed with:
  \<open>Finite m e\<close> stands for \<open>m * 2 ^ e\<close>.
\<close>

datatype pyfloat = Finite int int | Infinity | NegInfinity | NaN

datatype json =
    JNull
  | JBool bool
  | JInt int
  | JFloat pyfloat
  | JStr str
  | JList "json list"
  | JDict "(str \<times> json) list"

text \<open>
  The exceptions that reach an \<open>except\<close> clause of the source. \<open>HTTPException\<close> is
  FastAPI's (status code and detail); \<open>HTTPError\<close> is what \<open>raise_for_status\<close> raises and,
  like every other exception of the \<open>requests\<close> library (\<open>RequestException\<close>: timeouts,
  connection failures), a subclass of \<open>requests.exceptions.RequestException\<close>;
  \<open>JSONDecodeError\<close> is \<open>json.JSONDecodeError\<close>; the next four are raised by the Python
  runtime on a bad subscript, membership test or attribute; \<open>OtherException\<close> is any
  other subclass of \<open>Exception\<close> a library raises. All of them are subclasses of
  \<open>Exception\<close>.
\<close>

datatype exn =
    HTTPException nat str
  | HTTPError nat
  | RequestException str
  | JSONDecodeError str
  | TypeError
  | KeyError
  | IndexError
  | AttributeError
  | OtherException str

fun is_RequestException :: "exn \<Rightarrow> bool" where
  "is_RequestException (HTTPError _) = True"
| "is_RequestException (RequestException _) = True"
| "is_RequestException _ = False"

text \<open>Truth value of a Python object, as \<open>if x\<close> and \<open>x and y\<close> test it.\<close>

fun truthy :: "json \<Rightarrow> bool" where
  "truthy JNull = False"
| "truthy (JBool b) = b"
| "truthy (JInt i) = (i \<noteq> 0)"
| "truthy (JFloat f) = (case f of Finite m e \<Rightarrow> m \<noteq> 0 | _ \<Rightarrow> True)"
| "truthy (JStr s) = (s \<noteq> [])"
| "truthy (JList xs) = (xs \<noteq> [])"
| "truthy (JDict kvs) = (kvs \<noteq> [])"

text \<open>\<open>k in s\<close> for two strings: \<open>k\<close> occurs in \<open>s\<close> as a contiguous run.\<close>

fun starts_with :: "str \<Rightarrow> str \<Rightarrow> bool" where
  "starts_with [] s = True"
| "starts_with (c # k) [] = False"
| "starts_with (c # k) (d # s) = (c = d \<and> starts_with k s)"

fun is_substring :: "str \<Rightarrow> str \<Rightarrow> bool" where
  "is_substring k [] = (k = [])"
| "is_substring k (d # s) = (starts_with k (d # s) \<or> is_substring k s)"

text \<open>
  \<open>k in x\<close> for a string \<open>k\<close>: key membership in a dict, element membership in a list,
  substring test in a string, and \<open>TypeError\<close> on anything else.
\<close>

fun py_in :: "str \<Rightarrow> json \<Rightarrow> exn + bool" where
  "py_in k (JDict kvs) = Inr (k \<in> set (map fst kvs))"
| "py_in k (JList xs) = Inr (JStr k \<in> set xs)"
| "py_in k (JStr s) = Inr (is_substring k s)"
| "py_in k _ = Inl TypeError"

text \<open>\<open>x[k]\<close> for a string \<open>k\<close>: only a dict can be subscripted by a string.\<close>

fun py_getitem :: "json \<Rightarrow> str \<Rightarrow> exn + json" where
  "py_getitem (JDict kvs) k = (case map_of kvs k of None \<Rightarrow> Inl KeyError | Some v \<Rightarrow> Inr v)"
| "py_getitem _ k = Inl TypeError"

text \<open>
  \<open>x[0]\<close>: the first element of a list, the first character of a string, \<open>KeyError\<close> on a
  dict (its keys are strings), \<open>TypeError\<close> on anything else.
\<close>

fun py_getitem0 :: "json \<Rightarrow> exn + json" where
  "py_getitem0 (JList []) = Inl IndexError"
| "py_getitem0 (JList (x # xs)) = Inr x"
| "py_getitem0 (JStr []) = Inl IndexError"
| "py_getitem0 (JStr (c # s)) = Inr (JStr [c])"
| "py_getitem0 (JDict kvs) = Inl KeyError"
| "py_getitem0 _ = Inl TypeError"

text \<open>\<open>x.get(k, d)\<close>: only a dict has the method.\<close>

fun py_get :: "json \<Rightarrow> str \<Rightarrow> json \<Rightarrow> exn + json" where
  "py_get (JDict kvs) k d = Inr (case map_of kvs k of None \<Rightarrow> d | Some v \<Rightarrow> v)"
| "py_get _ k d = Inl AttributeError"

text \<open>
  \<open>str.isspace\<close> on one code point, as CPython's \<open>str.strip()\<close> tests it, and
  \<open>str.strip()\<close> itself.
\<close>

definition isspace :: "nat \<Rightarrow> bool" where
  "isspace c \<longleftrightarrow>
     c \<in> {9, 10, 11, 12, 13, 28, 29, 30, 31, 32, 133, 160, 5760}
     \<or> (8192 \<le> c \<and> c \<le> 8202)
     \<or> c \<in> {8232, 8233, 8239, 8287, 12288}"

definition strip :: "str \<Rightarrow> str" where
  "strip s = rev (dropWhile isspace (rev (dropWhile isspace s)))"

section \<open>The world outside the program\<close>

text \<open>
  The request \<open>requests.post\<close> sends and the response it returns. Of the response the
  program reads the status code (in \<open>raise_for_status\<close>) and the result of
  \<open>response.json()\<close>, which is a value or an exception of the library's.
\<close>

record request =
  url :: str
  headers :: "(str \<times> str) list"
  body :: json
  timeout :: nat

record response =
  status_code :: nat
  json_result :: "exn + json"

text \<open>A page of an opened PDF: \<open>get_text\<close> returns its plain text or raises.\<close>

datatype page = Page "exn + str"

fun get_text :: "page \<Rightarrow> exn + str" where
  "get_text (Page r) = r"

text \<open>
  Everything the program takes from its surroundings: the API key read from the
  environment at import time (\<open>os.getenv\<close> returns \<open>None\<close> or a string), the network
  behind \<open>requests.post\<close>, PyMuPDF's \<open>fitz.open\<close> on a byte stream, \<open>json.loads\<close>, and the
  Python runtime's \<open>str(e)\<close> of an exception and \<open>format\<close> of a value in an f-string.
  The theorems hold for every such environment.
\<close>

record env =
  GEMINI_API_KEY :: "str option"
  requests_post :: "request \<Rightarrow> exn + response"
  fitz_open :: "nat list \<Rightarrow> exn + page list"
  json_loads :: "str \<Rightarrow> exn + json"
  str_of_exception :: "exn \<Rightarrow> str"
  str_of_value :: "json \<Rightarrow> str"

text \<open>
  The effects of a call on the outside world, in the order they happen: reading the
  uploaded file, opening a byte stream as a PDF, sending an HTTPS request.
\<close>

datatype event = FileRead | FitzOpen "nat list" | Post request

text \<open>A value interpolated in an f-string: a string stands for itself.\<close>

fun format_value :: "env \<Rightarrow> json \<Rightarrow> str" where
  "format_value E (JStr s) = s"
| "format_value E v = str_of_value E v"

section \<open>Gemini API helper\<close>

text \<open>\<open>response.raise_for_status()\<close> of the requests library.\<close>

definition raise_for_status :: "response \<Rightarrow> exn + unit" where
  "raise_for_status r =
     (if 400 \<le> status_code r \<and> status_code r < 600 then Inl (HTTPError (status_code r))
      else Inr ())"

definition gemini_request :: "str \<Rightarrow> str \<Rightarrow> bool \<Rightarrow> request" where
  "gemini_request key prompt is_json_output =
     \<lparr>url = lit ''https://generativelanguage.googleapis.com/v1beta/models/gemini-1.5-flash-latest:generateContent'',
      headers = [(lit ''Content-Type'', lit ''application/json''), (lit ''x-goog-api-key'', key)],
      body = JDict [(lit ''contents'', JList [JDict [(lit ''parts'', JList [JDict [(lit ''text'', JStr prompt)]])]]),
                    (lit ''generation_config'',
                       JDict (if is_json_output
                              then [(lit ''response_mime_type'', JStr (lit ''application/json''))]
                              else []))],
      timeout = 90\<rparr>"

text \<open>
  Lines 96 to 101: what the helper makes of the decoded response \<open>result\<close>. Every
  subscript is a step that can raise.
\<close>

definition candidate_text :: "json \<Rightarrow> exn + json" where
  "candidate_text result =
     (case py_getitem result (lit ''candidates'') of Inl e \<Rightarrow> Inl e | Inr cs \<Rightarrow>
     (case py_getitem0 cs of Inl e \<Rightarrow> Inl e | Inr c \<Rightarrow>
     (case py_getitem c (lit ''content'') of Inl e \<Rightarrow> Inl e | Inr ct \<Rightarrow>
     (case py_getitem ct (lit ''parts'') of Inl e \<Rightarrow> Inl e | Inr ps \<Rightarrow>
     (case py_getitem0 ps of Inl e \<Rightarrow> Inl e | Inr p \<Rightarrow>
      py_getitem p (lit ''text''))))))"

definition has_candidates :: "json \<Rightarrow> exn + bool" where
  "has_candidates result =
     (case py_in (lit ''candidates'') result of Inl e \<Rightarrow> Inl e
      | Inr False \<Rightarrow> Inr False
      | Inr True \<Rightarrow>
          (case py_getitem result (lit ''candidates'') of Inl e \<Rightarrow> Inl e
           | Inr cs \<Rightarrow> Inr (truthy cs)))"

definition read_result :: "env \<Rightarrow> json \<Rightarrow> exn + json" where
  "read_result E result =
     (case has_candidates result of Inl e \<Rightarrow> Inl e
      | Inr True \<Rightarrow> candidate_text result
      | Inr False \<Rightarrow>
          (case py_in (lit ''error'') result of Inl e \<Rightarrow> Inl e
           | Inr True \<Rightarrow>
               (case py_getitem result (lit ''error'') of Inl e \<Rightarrow> Inl e | Inr err \<Rightarrow>
               (case py_get err (lit ''message'') (JStr (lit ''Unknown error'')) of Inl e \<Rightarrow> Inl e
                | Inr m \<Rightarrow> Inl (HTTPException 500 (lit ''Gemini API Error: '' @ format_value E m))))
           | Inr False \<Rightarrow>
               Inl (HTTPException 500 (lit ''Invalid response structure from Gemini API.''))))"

text \<open>The body of the \<open>try\<close> of \<open>call_gemini_api\<close> (lines 92 to 101).\<close>

definition gemini_try :: "env \<Rightarrow> request \<Rightarrow> exn + json" where
  "gemini_try E req =
     (case requests_post E req of Inl e \<Rightarrow> Inl e | Inr resp \<Rightarrow>
     (case raise_for_status resp of Inl e \<Rightarrow> Inl e | Inr _ \<Rightarrow>
     (case json_result resp of Inl e \<Rightarrow> Inl e | Inr result \<Rightarrow>
      read_result E result)))"

text \<open>
  \<open>call_gemini_api\<close>: the key check (\<open>not GEMINI_API_KEY\<close> holds of \<open>None\<close> and of the
  empty string), then the \<open>try\<close> with its two \<open>except\<close> clauses. An exception raised
  inside the \<open>try\<close>, an \<open>HTTPException\<close> of the helper's own included, is caught by the
  first clause that matches its class. The second component is the list of effects of
  the call.
\<close>

definition call_gemini_api :: "env \<Rightarrow> str \<Rightarrow> bool \<Rightarrow> (exn + json) \<times> event list" where
  "call_gemini_api E prompt is_json_output =
     (case GEMINI_API_KEY E of
        None \<Rightarrow> (Inl (HTTPException 500 (lit ''GEMINI_API_KEY not configured.'')), [])
      | Some [] \<Rightarrow> (Inl (HTTPException 500 (lit ''GEMINI_API_KEY not configured.'')), [])
      | Some key \<Rightarrow>
          (case gemini_try E (gemini_request key prompt is_json_output) of
             Inr t \<Rightarrow> Inr t
           | Inl e \<Rightarrow>
               if is_RequestException e
               then Inl (HTTPException 503 (lit ''Could not connect to AI service: '' @ str_of_exception E e))
               else Inl (HTTPException 500 (lit ''Unexpected error: '' @ str_of_exception E e)),
           [Post (gemini_request key prompt is_json_output)]))"

section \<open>Routes\<close>

record AskRequest =
  question :: str
  document_context :: "str option"

text \<open>
  An uploaded file as the handlers see it: the declared name and content type (either
  may be absent) and the bytes \<open>file.read()\<close> returns.
\<close>

record UploadFile =
  filename :: "str option"
  content_type :: "str option"
  contents :: "nat list"

subsection \<open>/ask\<close>

definition ask_prompt :: "AskRequest \<Rightarrow> str" where
  "ask_prompt data =
     (case document_context data of
        Some (c # cs) \<Rightarrow>
          lit ''\<newline>        You are a helpful insurance assistant. A user uploaded a policy and asked:\<newline>        Context:\<newline>        ---\<newline>        ''
          @ (c # cs)
          @ lit ''\<newline>        ---\<newline>        Question: ''
          @ question data
          @ lit ''\<newline>        Answer:\<newline>        ''
      | _ \<Rightarrow>
          lit ''\<newline>        You are a helpful insurance assistant. The user asked a general health insurance question:\<newline>        Question: ''
          @ question data
          @ lit ''\<newline>        Answer:\<newline>        '')"

definition ask_question :: "env \<Rightarrow> AskRequest \<Rightarrow> (exn + json) \<times> event list" where
  "ask_question E data =
     (case call_gemini_api E (ask_prompt data) False of
        (Inl e, evs) \<Rightarrow> (Inl e, evs)
      | (Inr answer, evs) \<Rightarrow> (Inr (JDict [(lit ''answer'', answer)]), evs))"

subsection \<open>/upload-doc\<close>

text \<open>
  The list comprehension \<open>[page.get_text() for page in doc]\<close>: the texts of the pages in
  document order, or the first exception a page raises.
\<close>

fun page_texts :: "page list \<Rightarrow> exn + str list" where
  "page_texts [] = Inr []"
| "page_texts (p # ps) =
     (case get_text p of Inl e \<Rightarrow> Inl e | Inr t \<Rightarrow>
     (case page_texts ps of Inl e \<Rightarrow> Inl e | Inr ts \<Rightarrow> Inr (t # ts)))"

text \<open>
  Lines 138 and 139, the document extractor: open the bytes as a PDF, join the page
  texts with the empty separator, strip.
\<close>

definition extract_text :: "env \<Rightarrow> nat list \<Rightarrow> exn + str" where
  "extract_text E bytes =
     (case fitz_open E bytes of Inl e \<Rightarrow> Inl e | Inr doc \<Rightarrow>
     (case page_texts doc of Inl e \<Rightarrow> Inl e | Inr ts \<Rightarrow> Inr (strip (concat ts))))"

definition summary_prompt :: "str \<Rightarrow> str" where
  "summary_prompt txt =
     lit ''Summarize the following insurance policy in bullet points:\<newline>\<newline>'' @ take 8000 txt"

text \<open>The body of the \<open>try\<close> of \<open>upload_doc\<close> (lines 138 to 151).\<close>

definition upload_doc_try :: "env \<Rightarrow> UploadFile \<Rightarrow> (exn + json) \<times> event list" where
  "upload_doc_try E file =
     (case extract_text E (contents file) of
        Inl e \<Rightarrow> (Inl e, [FitzOpen (contents file)])
      | Inr txt \<Rightarrow>
          if txt = []
          then (Inl (HTTPException 400 (lit ''PDF is empty or non-readable.'')), [FitzOpen (contents file)])
          else
            (case call_gemini_api E (summary_prompt txt) False of
               (Inl e, evs) \<Rightarrow> (Inl e, FitzOpen (contents file) # evs)
             | (Inr summary, evs) \<Rightarrow>
                 (Inr (JDict [(lit ''status'', JStr (lit ''success'')),
                              (lit ''filename'', (case filename file of None \<Rightarrow> JNull | Some n \<Rightarrow> JStr n)),
                              (lit ''summary'', summary),
                              (lit ''full_text'', JStr txt)]),
                  FitzOpen (contents file) # evs)))"

text \<open>
  \<open>upload_doc\<close>: the content type check, the read, and the \<open>try\<close> whose
  \<open>except Exception\<close> catches whatever its body raises, an \<open>HTTPException\<close> included.
\<close>

definition upload_doc :: "env \<Rightarrow> UploadFile \<Rightarrow> (exn + json) \<times> event list" where
  "upload_doc E file =
     (if content_type file \<noteq> Some (lit ''application/pdf'')
      then (Inl (HTTPException 400 (lit ''Only PDF files are allowed.'')), [])
      else
        (case upload_doc_try E file of
           (Inr r, evs) \<Rightarrow> (Inr r, FileRead # evs)
         | (Inl e, evs) \<Rightarrow>
             (Inl (HTTPException 500 (lit ''PDF processing error: '' @ str_of_exception E e)),
              FileRead # evs)))"

subsection \<open>The structured endpoints\<close>

text \<open>
  The four lines every structured handler ends with: \<open>json.loads(response_text)\<close> in a
  \<open>try\<close> whose only clause is \<open>except json.JSONDecodeError\<close>. \<open>json.loads\<close> raises
  \<open>TypeError\<close> on a value that is not a string, and that, like any other exception, is
  not caught here.
\<close>

definition loads_response :: "env \<Rightarrow> json \<Rightarrow> exn + json" where
  "loads_response E response_text =
     (case response_text of
        JStr s \<Rightarrow>
          (case json_loads E s of
             Inr v \<Rightarrow> Inr v
           | Inl (JSONDecodeError m) \<Rightarrow> Inl (HTTPException 500 (lit ''AI did not return valid JSON.''))
           | Inl e \<Rightarrow> Inl e)
      | _ \<Rightarrow> Inl TypeError)"

definition structured :: "env \<Rightarrow> str \<Rightarrow> (exn + json) \<times> event list" where
  "structured E prompt =
     (case call_gemini_api E prompt True of
        (Inl e, evs) \<Rightarrow> (Inl e, evs)
      | (Inr response_text, evs) \<Rightarrow> (loads_response E response_text, evs))"

definition check_claim_prompt :: "str \<Rightarrow> str \<Rightarrow> UploadFile option \<Rightarrow> str" where
  "check_claim_prompt claim_type document_context' bill =
     lit ''\<newline>    You are an expert insurance claim analyst. Evaluate the following claim based on the policy:\<newline>\<newline>    Context:\<newline>    ---\<newline>    ''
     @ document_context'
     @ lit ''\<newline>    ---\<newline>    Claim Type: ''
     @ claim_type
     @ lit ''\<newline>    Bill Attached: ''
     @ (case bill of Some f \<Rightarrow> lit ''Yes'' | None \<Rightarrow> lit ''No'')
     @ lit ''\<newline>\<newline>    Return JSON with:\<newline>    - decision: Eligible/Ineligible/More Information Needed\<newline>    - reason: explanation\<newline>    - required_documents: list of required documents\<newline>\<newline>    JSON:\<newline>    ''"

definition check_claim :: "env \<Rightarrow> str \<Rightarrow> str \<Rightarrow> UploadFile option \<Rightarrow> (exn + json) \<times> event list" where
  "check_claim E claim_type document_context' bill =
     structured E (check_claim_prompt claim_type document_context' bill)"

definition recommend_policy_prompt :: "str \<Rightarrow> str \<Rightarrow> str \<Rightarrow> str \<Rightarrow> str \<Rightarrow> str" where
  "recommend_policy_prompt user_age user_gender health_conditions coverage budget =
     lit ''\<newline>    Suggest 2-3 health insurance policies for:\<newline>    - Age: ''
     @ user_age
     @ lit ''\<newline>    - Gender: ''
     @ user_gender
     @ lit ''\<newline>    - Conditions: ''
     @ health_conditions
     @ lit ''\<newline>    - Coverage: ''
     @ coverage
     @ lit ''\<newline>    - Budget: '' @ [8377]
     @ budget
     @ lit ''\<newline>\<newline>    Return JSON with:\<newline>    recommendations: [\<newline>      {policy_name, reasoning, key_features (list), estimated_premium}\<newline>    ]\<newline>    ''"

definition recommend_policy :: "env \<Rightarrow> str \<Rightarrow> str \<Rightarrow> str \<Rightarrow> str \<Rightarrow> str \<Rightarrow> (exn + json) \<times> event list" where
  "recommend_policy E user_age user_gender health_conditions coverage budget =
     structured E (recommend_policy_prompt user_age user_gender health_conditions coverage budget)"

definition find_hospitals_prompt :: "str \<Rightarrow> str" where
  \<open>find_hospitals_prompt location =
     lit ''\<newline>    Find up to 5 major cashless network hospitals in "''
     @ location
     @ lit ''" (India).\<newline>    Return JSON with:\<newline>    hospitals: [{ name, address, specialties (list) }]\<newline>    ''\<close>

definition find_hospitals :: "env \<Rightarrow> str \<Rightarrow> (exn + json) \<times> event list" where
  "find_hospitals E location = structured E (find_hospitals_prompt location)"

definition analytics_prompt :: str where
  \<open>analytics_prompt =
     lit ''\<newline>    Generate realistic health insurance analytics data for an Indian dashboard:\<newline>\<newline>    Return valid JSON:\<newline>    {\<newline>      "claim_status_distribution": {\<newline>        "labels": ["Approved", "Pending", "Rejected"],\<newline>        "data": [int, int, int]\<newline>      },\<newline>      "monthly_claims": {\<newline>        "labels": ["March", "April", "May", "June", "July", "August"],\<newline>        "data": [int, int, int, int, int, int]\<newline>      },\<newline>      "key_metrics": {\<newline>        "total_claims": int,\<newline>        "approval_rate": float,\<newline>        "avg_claim_amount": int\<newline>      }\<newline>    }\<newline>    ''\<close>

definition get_analytics_data :: "env \<Rightarrow> (exn + json) \<times> event list" where
  "get_analytics_data E = structured E analytics_prompt"

section \<open>Declared response shapes\<close>

text \<open>
  The response models \<open>Hospital\<close> and \<open>FindHospitalsResponse\<close> (lines 61 to 67): the
  fields and their types. A value these predicates accept has every declared field
  with a value of the declared type. Neither class bounds the length of a list.
\<close>

fun is_str :: "json \<Rightarrow> bool" where
  "is_str (JStr s) = True"
| "is_str _ = False"

definition valid_Hospital :: "json \<Rightarrow> bool" where
  "valid_Hospital h =
     (case h of
        JDict kvs \<Rightarrow>
          (case (map_of kvs (lit ''name''), map_of kvs (lit ''address''), map_of kvs (lit ''specialties'')) of
             (Some (JStr n), Some (JStr a), Some (JList sp)) \<Rightarrow> list_all is_str sp
           | _ \<Rightarrow> False)
      | _ \<Rightarrow> False)"

definition valid_FindHospitalsResponse :: "json \<Rightarrow> bool" where
  "valid_FindHospitalsResponse r =
     (case r of
        JDict kvs \<Rightarrow>
          (case map_of kvs (lit ''hospitals'') of
             Some (JList hs) \<Rightarrow> list_all valid_Hospital hs
           | _ \<Rightarrow> False)
      | _ \<Rightarrow> False)"

text \<open>The \<open>hospitals\<close> list of a response.\<close>

definition hospitals :: "json \<Rightarrow> json list" where
  "hospitals r =
     (case r of
        JDict kvs \<Rightarrow> (case map_of kvs (lit ''hospitals'') of Some (JList hs) \<Rightarrow> hs | _ \<Rightarrow> [])
      | _ \<Rightarrow> [])"

section \<open>The response model of /find-hospitals\<close>

text \<open>
  The route is declared with \<open>response_model=FindHospitalsResponse\<close> (line 201): FastAPI
  validates what the handler returns against the model and answers with the fields of
  the model, the declared ones only and in the declared order; a value the model
  refuses is answered with status 500. Pydantic converts some values of another type,
  and which ones depends on its version, so the two conversions are parameters: of a
  value that is not a string for a field of type \<open>str\<close>, and of a value that is not a
  dict for a model. A string is taken as it is, a dict by its entries, and only a list
  is taken for a list.
\<close>

record pydantic =
  coerce_str :: "json \<Rightarrow> str option"
  coerce_dict :: "json \<Rightarrow> (str \<times> json) list option"

definition str_field :: "pydantic \<Rightarrow> json \<Rightarrow> json option" where
  "str_field P v = (case v of JStr s \<Rightarrow> Some (JStr s) | _ \<Rightarrow> map_option JStr (coerce_str P v))"

fun each :: "('a \<Rightarrow> 'b option) \<Rightarrow> 'a list \<Rightarrow> 'b list option" where
  "each f [] = Some []"
| "each f (x # xs) =
     (case f x of None \<Rightarrow> None | Some y \<Rightarrow>
     (case each f xs of None \<Rightarrow> None | Some ys \<Rightarrow> Some (y # ys)))"

definition list_field :: "(json \<Rightarrow> json option) \<Rightarrow> json \<Rightarrow> json option" where
  "list_field f v = (case v of JList xs \<Rightarrow> map_option JList (each f xs) | _ \<Rightarrow> None)"

definition model_fields :: "pydantic \<Rightarrow> json \<Rightarrow> (str \<times> json) list option" where
  "model_fields P v = (case v of JDict kvs \<Rightarrow> Some kvs | _ \<Rightarrow> coerce_dict P v)"

definition required_field :: "(str \<times> json) list \<Rightarrow> str \<Rightarrow> (json \<Rightarrow> json option) \<Rightarrow> json option" where
  "required_field kvs k f = (case map_of kvs k of None \<Rightarrow> None | Some v \<Rightarrow> f v)"

text \<open>The classes \<open>Hospital\<close> (lines 61 to 64) and \<open>FindHospitalsResponse\<close> (lines 66 and 67).\<close>

definition Hospital :: "pydantic \<Rightarrow> json \<Rightarrow> json option" where
  "Hospital P v =
     (case model_fields P v of
        None \<Rightarrow> None
      | Some kvs \<Rightarrow>
          (case (required_field kvs (lit ''name'') (str_field P),
                 required_field kvs (lit ''address'') (str_field P),
                 required_field kvs (lit ''specialties'') (list_field (str_field P))) of
             (Some n, Some a, Some sp) \<Rightarrow>
               Some (JDict [(lit ''name'', n), (lit ''address'', a), (lit ''specialties'', sp)])
           | _ \<Rightarrow> None))"

definition FindHospitalsResponse :: "pydantic \<Rightarrow> json \<Rightarrow> json option" where
  "FindHospitalsResponse P v =
     (case model_fields P v of
        None \<Rightarrow> None
      | Some kvs \<Rightarrow>
          (case required_field kvs (lit ''hospitals'') (list_field (Hospital P)) of
             None \<Rightarrow> None
           | Some hs \<Rightarrow> Some (JDict [(lit ''hospitals'', hs)])))"

text \<open>
  What the framework answers: status 200 with the validated value, the status and
  detail of an \<open>HTTPException\<close>, or status 500 for a value the model refuses and for any
  other exception.
\<close>

datatype http_response = Response200 json | ErrorResponse nat str | InternalServerError

definition respond :: "(json \<Rightarrow> json option) \<Rightarrow> exn + json \<Rightarrow> http_response" where
  "respond model r =
     (case r of
        Inr v \<Rightarrow> (case model v of Some c \<Rightarrow> Response200 c | None \<Rightarrow> InternalServerError)
      | Inl (HTTPException status detail) \<Rightarrow> ErrorResponse status detail
      | Inl e \<Rightarrow> InternalServerError)"

text \<open>The route \<open>/find-hospitals\<close> (line 201): the handler, then the response model.\<close>

definition find_hospitals_route :: "pydantic \<Rightarrow> env \<Rightarrow> str \<Rightarrow> http_response \<times> event list" where
  "find_hospitals_route P E location =
     (case find_hospitals E location of (r, evs) \<Rightarrow> (respond (FindHospitalsResponse P) r, evs))"

section \<open>Example environments\<close>

text \<open>
  Concrete surroundings for the examples below. \<open>decimal\<close> prints a number as Python's
  \<open>str\<close> does. \<open>example_str_of_exception\<close> prints an \<open>HTTPException\<close> as Starlette does
  (status code, colon, detail), the \<open>HTTPError\<close> of a 400 response as \<open>requests\<close> does, and
  an exception that carries its message as that message; the examples print no other
  exception. \<open>example_loads\<close> agrees with \<open>json.loads\<close> on the two JSON texts of the
  examples and on texts that do not start a JSON value. No example formats a value other
  than a string in an f-string, so \<open>str_of_value\<close> of the example environment is never
  consulted.
\<close>

fun decimal :: "nat \<Rightarrow> str" where
  "decimal n = (if n < 10 then [48 + n] else decimal (n div 10) @ [48 + n mod 10])"

declare decimal.simps [simp del]

definition example_str_of_exception :: "exn \<Rightarrow> str" where
  "example_str_of_exception e =
     (case e of
        HTTPException status detail \<Rightarrow> decimal status @ lit '': '' @ detail
      | HTTPError status \<Rightarrow>
          decimal status @ lit '' Client Error: Bad Request for url: https://generativelanguage.googleapis.com/v1beta/models/gemini-1.5-flash-latest:generateContent''
      | RequestException m \<Rightarrow> m
      | JSONDecodeError m \<Rightarrow> m
      | OtherException m \<Rightarrow> m
      | _ \<Rightarrow> [])"

definition six_hospitals_text :: str where
  \<open>six_hospitals_text = lit ''{"hospitals": [{"name": "Hospital 1", "address": "1 MG Road, Mumbai", "specialties": ["Cardiology"]}, {"name": "Hospital 2", "address": "2 MG Road, Mumbai", "specialties": ["Cardiology"]}, {"name": "Hospital 3", "address": "3 MG Road, Mumbai", "specialties": ["Cardiology"]}, {"name": "Hospital 4", "address": "4 MG Road, Mumbai", "specialties": ["Cardiology"]}, {"name": "Hospital 5", "address": "5 MG Road, Mumbai", "specialties": ["Cardiology"]}, {"name": "Hospital 6", "address": "6 MG Road, Mumbai", "specialties": ["Cardiology"]}]}''\<close>

definition six_hospitals :: json where
  "six_hospitals =
     JDict [(lit ''hospitals'', JList [
        JDict [(lit ''name'', JStr (lit ''Hospital 1'')), (lit ''address'', JStr (lit ''1 MG Road, Mumbai'')), (lit ''specialties'', JList [JStr (lit ''Cardiology'')])],
        JDict [(lit ''name'', JStr (lit ''Hospital 2'')), (lit ''address'', JStr (lit ''2 MG Road, Mumbai'')), (lit ''specialties'', JList [JStr (lit ''Cardiology'')])],
        JDict [(lit ''name'', JStr (lit ''Hospital 3'')), (lit ''address'', JStr (lit ''3 MG Road, Mumbai'')), (lit ''specialties'', JList [JStr (lit ''Cardiology'')])],
        JDict [(lit ''name'', JStr (lit ''Hospital 4'')), (lit ''address'', JStr (lit ''4 MG Road, Mumbai'')), (lit ''specialties'', JList [JStr (lit ''Cardiology'')])],
        JDict [(lit ''name'', JStr (lit ''Hospital 5'')), (lit ''address'', JStr (lit ''5 MG Road, Mumbai'')), (lit ''specialties'', JList [JStr (lit ''Cardiology'')])],
        JDict [(lit ''name'', JStr (lit ''Hospital 6'')), (lit ''address'', JStr (lit ''6 MG Road, Mumbai'')), (lit ''specialties'', JList [JStr (lit ''Cardiology'')])]])]"

definition claim_decision_text :: str where
  \<open>claim_decision_text = lit ''{"decision": "Eligible", "reason": "Covered by the policy", "required_documents": ["Discharge summary", "Hospital bill"]}''\<close>

definition claim_decision :: json where
  "claim_decision = JDict [(lit ''decision'', JStr (lit ''Eligible'')), (lit ''reason'', JStr (lit ''Covered by the policy'')), (lit ''required_documents'', JList [JStr (lit ''Discharge summary''), JStr (lit ''Hospital bill'')])]"

definition example_loads :: "str \<Rightarrow> exn + json" where
  "example_loads s =
     (if s = six_hospitals_text then Inr six_hospitals
      else if s = claim_decision_text then Inr claim_decision
      else Inl (JSONDecodeError (lit ''Expecting value: line 1 column 1 (char 0)'')))"

text \<open>
  A response with status 200 whose body holds one candidate with the text \<open>t\<close>, and an
  environment with a key, a network that answers every request with \<open>resp\<close> and a PDF
  library that opens every byte stream as the pages \<open>doc\<close>.
\<close>

definition reply :: "str \<Rightarrow> response" where
  "reply t =
     \<lparr>status_code = 200,
      json_result = Inr (JDict [(lit ''candidates'',
        JList [JDict [(lit ''content'', JDict [(lit ''parts'', JList [JDict [(lit ''text'', JStr t)]]),
                                              (lit ''role'', JStr (lit ''model''))])]])])\<rparr>"

definition example_env :: "page list \<Rightarrow> response \<Rightarrow> env" where
  "example_env doc resp =
     \<lparr>GEMINI_API_KEY = Some (lit ''secret-key''),
      requests_post = (\<lambda>req. Inr resp),
      fitz_open = (\<lambda>bytes. Inr doc),
      json_loads = example_loads,
      str_of_exception = example_str_of_exception,
      str_of_value = (\<lambda>v. [])\<rparr>"

text \<open>The same surroundings without an API key, and a PDF of one page of 9000 letters.\<close>

definition example_env_no_key :: "page list \<Rightarrow> env" where
  "example_env_no_key doc = (example_env doc (reply (lit ''- a summary'')))\<lparr>GEMINI_API_KEY := None\<rparr>"

definition long_pdf :: "page list" where
  "long_pdf = [Page (Inr (replicate 9000 97))]"

text \<open>Pydantic as of version 2, which converts neither a number to a string nor a list to a dict.\<close>

definition pydantic2 :: pydantic where
  "pydantic2 = \<lparr>coerce_str = (\<lambda>v. None), coerce_dict = (\<lambda>v. None)\<rparr>"

text \<open>The answer of the remote API to a request it rejects: status 400 and an error body.\<close>

definition error_response :: response where
  "error_response =
     \<lparr>status_code = 400,
      json_result = Inr (JDict [(lit ''error'',
        JDict [(lit ''code'', JInt 400),
               (lit ''message'', JStr (lit ''API key not valid. Please pass a valid API key.'')),
               (lit ''status'', JStr (lit ''INVALID_ARGUMENT''))])])\<rparr>"

section \<open>Basic facts\<close>

subsection \<open>Strings\<close>

lemma lit_eq_iff [simp]: "lit a = lit b \<longleftrightarrow> a = b"
  by (simp add: lit_def inj_map_eq_map [OF inj_of_char])

lemma lit_empty_iff [simp]: "lit a = [] \<longleftrightarrow> a = []"
  by (simp add: lit_def)

lemma lit_append: "lit a @ lit b = lit (a @ b)"
  by (simp add: lit_def)

lemma decimal_400: "decimal 400 = lit ''400''"
  by code_simp

lemma decimal_500: "decimal 500 = lit ''500''"
  by code_simp

lemma strip_empty [simp]: "strip [] = []"
  by (simp add: strip_def)

lemma rev_dropWhile_takeWhile:
  "xs = rev (dropWhile P (rev xs)) @ rev (takeWhile P (rev xs))"
  by (metis rev_append rev_rev_ident takeWhile_dropWhile_id)

text \<open>\<open>strip\<close> removes a run of whitespace at either end and nothing else.\<close>

lemma strip_split:
  "\<exists>l r. s = l @ strip s @ r \<and> list_all isspace l \<and> list_all isspace r"
proof -
  let ?d = "dropWhile isspace s"
  have "?d = strip s @ rev (takeWhile isspace (rev ?d))"
    unfolding strip_def by (rule rev_dropWhile_takeWhile)
  then have "takeWhile isspace s @ ?d = takeWhile isspace s @ strip s @ rev (takeWhile isspace (rev ?d))"
    by (rule arg_cong)
  then have "s = takeWhile isspace s @ strip s @ rev (takeWhile isspace (rev ?d))"
    by (simp only: takeWhile_dropWhile_id)
  moreover have "list_all isspace (takeWhile isspace s)"
    by (auto simp: list_all_iff dest: set_takeWhileD)
  moreover have "list_all isspace (rev (takeWhile isspace (rev ?d)))"
    by (auto simp: list_all_iff dest: set_takeWhileD)
  ultimately show ?thesis by blast
qed

lemma strip_nonempty:
  assumes "\<exists>c\<in>set s. \<not> isspace c"
  shows "strip s \<noteq> []"
proof -
  have "dropWhile isspace s \<noteq> []"
    using assms by (simp add: dropWhile_eq_Nil_conv)
  then have "\<not> isspace (hd (dropWhile isspace s))"
    and "hd (dropWhile isspace s) \<in> set (rev (dropWhile isspace s))"
    by (simp_all add: hd_dropWhile)
  then have "dropWhile isspace (rev (dropWhile isspace s)) \<noteq> []"
    by (auto simp: dropWhile_eq_Nil_conv)
  then show ?thesis by (simp add: strip_def)
qed

lemma strip_ends:
  assumes "strip s \<noteq> []"
  shows "\<not> isspace (hd (strip s))" and "\<not> isspace (last (strip s))"
proof -
  let ?d = "dropWhile isspace s"
  let ?e = "dropWhile isspace (rev ?d)"
  from assms have e: "?e \<noteq> []" by (simp add: strip_def)
  have d: "?d \<noteq> []"
  proof
    assume "?d = []"
    then have "?e = []" by (simp only: rev.simps dropWhile.simps)
    with e show False by simp
  qed
  have "last (strip s) = hd ?e"
    using e by (simp add: strip_def last_rev)
  then show "\<not> isspace (last (strip s))"
    using e by (simp add: hd_dropWhile)
  have "?d = strip s @ rev (takeWhile isspace (rev ?d))"
    unfolding strip_def by (rule rev_dropWhile_takeWhile)
  then have "hd ?d = hd (strip s @ rev (takeWhile isspace (rev ?d)))"
    by (rule arg_cong)
  then have "hd ?d = hd (strip s)" using assms by simp
  moreover have "\<not> isspace (hd ?d)" using d by (rule hd_dropWhile)
  ultimately show "\<not> isspace (hd (strip s))" by simp
qed

lemma strip_id:
  assumes "s \<noteq> []" "\<not> isspace (hd s)" "\<not> isspace (last s)"
  shows "strip s = s"
proof -
  have "dropWhile isspace s = s"
    using assms(1,2) by (cases s) auto
  moreover have "dropWhile isspace (rev s) = rev s"
    using assms(1,3) by (cases "rev s") (auto simp: last_rev [symmetric] simp del: last_rev)
  ultimately show ?thesis by (simp add: strip_def)
qed

subsection \<open>The helper\<close>

lemma call_gemini_api_no_key:
  "GEMINI_API_KEY E = None \<or> GEMINI_API_KEY E = Some [] \<Longrightarrow>
   call_gemini_api E prompt is_json_output =
     (Inl (HTTPException 500 (lit ''GEMINI_API_KEY not configured.'')), [])"
  by (auto simp: call_gemini_api_def)

lemma call_gemini_api_key:
  "GEMINI_API_KEY E = Some key \<Longrightarrow> key \<noteq> [] \<Longrightarrow>
   call_gemini_api E prompt is_json_output =
     (case gemini_try E (gemini_request key prompt is_json_output) of
        Inr t \<Rightarrow> Inr t
      | Inl e \<Rightarrow>
          if is_RequestException e
          then Inl (HTTPException 503 (lit ''Could not connect to AI service: '' @ str_of_exception E e))
          else Inl (HTTPException 500 (lit ''Unexpected error: '' @ str_of_exception E e)),
      [Post (gemini_request key prompt is_json_output)])"
  by (cases key) (auto simp: call_gemini_api_def)

text \<open>A call that returns has sent exactly one request.\<close>

lemma call_gemini_api_ok_events:
  "call_gemini_api E prompt is_json_output = (Inr t, evs) \<Longrightarrow>
   \<exists>key. GEMINI_API_KEY E = Some key \<and> key \<noteq> []
     \<and> evs = [Post (gemini_request key prompt is_json_output)]"
  by (auto simp: call_gemini_api_def split: option.splits list.splits sum.splits if_splits)

text \<open>
  A response with a status from 400 to 599 never reaches the lines that read the body:
  \<open>raise_for_status\<close> raises an \<open>HTTPError\<close>, the clause
  \<open>except requests.exceptions.RequestException\<close> catches it, and the call fails with 503.
\<close>

lemma call_gemini_api_http_error:
  assumes "GEMINI_API_KEY E = Some key" "key \<noteq> []"
    and "requests_post E (gemini_request key prompt is_json_output) = Inr resp"
    and "400 \<le> status_code resp" "status_code resp < 600"
  shows "call_gemini_api E prompt is_json_output =
     (Inl (HTTPException 503 (lit ''Could not connect to AI service: '' @
        str_of_exception E (HTTPError (status_code resp)))),
      [Post (gemini_request key prompt is_json_output)])"
  using assms by (simp add: call_gemini_api_key gemini_try_def raise_for_status_def)

text \<open>
  The branch of lines 98 and 99, which reads the remote error message, is reached only
  by a response whose status lies outside 400 to 599. The \<open>HTTPException\<close> it raises is
  raised inside the \<open>try\<close>, so \<open>except Exception\<close> catches it: the status stays 500 and
  the detail is wrapped once more.
\<close>

lemma call_gemini_api_error_body:
  assumes "GEMINI_API_KEY E = Some key" "key \<noteq> []"
    and "requests_post E (gemini_request key prompt is_json_output) = Inr resp"
    and "status_code resp < 400 \<or> 600 \<le> status_code resp"
    and "json_result resp = Inr (JDict [(lit ''error'', JDict [(lit ''message'', JStr m)])])"
  shows "call_gemini_api E prompt is_json_output =
     (Inl (HTTPException 500 (lit ''Unexpected error: '' @
        str_of_exception E (HTTPException 500 (lit ''Gemini API Error: '' @ m)))),
      [Post (gemini_request key prompt is_json_output)])"
  using assms
  by (auto simp: call_gemini_api_key gemini_try_def raise_for_status_def read_result_def
      has_candidates_def)

lemma call_gemini_api_reply:
  "call_gemini_api (example_env doc (reply t)) prompt is_json_output =
     (Inr (JStr t), [Post (gemini_request (lit ''secret-key'') prompt is_json_output)])"
proof -
  have "gemini_try (example_env doc (reply t))
          (gemini_request (lit ''secret-key'') prompt is_json_output) = Inr (JStr t)"
    by (simp add: gemini_try_def example_env_def reply_def raise_for_status_def read_result_def
        has_candidates_def candidate_text_def)
  then show ?thesis
    by (simp add: call_gemini_api_key [where key = "lit ''secret-key''"] example_env_def)
qed

subsection \<open>The upload handler\<close>

text \<open>The comprehension returns a list exactly when every page returns its text.\<close>

lemma page_texts_iff: "page_texts doc = Inr ts \<longleftrightarrow> map get_text doc = map Inr ts"
proof (induction doc arbitrary: ts)
  case Nil
  then show ?case by auto
next
  case (Cons p ps)
  show ?case
  proof (cases "get_text p")
    case (Inl e)
    then show ?thesis by (cases ts) auto
  next
    case (Inr t)
    then show ?thesis
      using Cons.IH by (cases ts; cases "page_texts ps") auto
  qed
qed

text \<open>
  The \<open>HTTPException\<close> with status 400 that line 141 raises for an empty text is raised
  inside the \<open>try\<close>; \<open>except Exception\<close> catches it and raises status 500 in its place.
\<close>

lemma upload_doc_empty_text:
  "content_type file = Some (lit ''application/pdf'') \<Longrightarrow>
   extract_text E (contents file) = Inr [] \<Longrightarrow>
   upload_doc E file =
     (Inl (HTTPException 500 (lit ''PDF processing error: '' @
        str_of_exception E (HTTPException 400 (lit ''PDF is empty or non-readable.'')))),
      [FileRead, FitzOpen (contents file)])"
  by (simp add: upload_doc_def upload_doc_try_def)

text \<open>The same clause catches whatever the gateway call raises.\<close>

lemma upload_doc_gateway_error:
  assumes "content_type file = Some (lit ''application/pdf'')"
    and "extract_text E (contents file) = Inr txt" and "txt \<noteq> []"
    and "call_gemini_api E (summary_prompt txt) False = (Inl e, evs)"
  shows "upload_doc E file =
     (Inl (HTTPException 500 (lit ''PDF processing error: '' @ str_of_exception E e)),
      FileRead # FitzOpen (contents file) # evs)"
  using assms by (simp add: upload_doc_def upload_doc_try_def)

lemma upload_doc_ok:
  assumes "content_type file = Some (lit ''application/pdf'')"
    and "extract_text E (contents file) = Inr txt" and "txt \<noteq> []"
    and "call_gemini_api E (summary_prompt txt) False = (Inr summary, evs)"
  shows "upload_doc E file =
     (Inr (JDict [(lit ''status'', JStr (lit ''success'')),
                  (lit ''filename'', (case filename file of None \<Rightarrow> JNull | Some n \<Rightarrow> JStr n)),
                  (lit ''summary'', summary),
                  (lit ''full_text'', JStr txt)]),
      FileRead # FitzOpen (contents file) # evs)"
  using assms by (simp add: upload_doc_def upload_doc_try_def)

lemma upload_doc_no_key_events:
  assumes "GEMINI_API_KEY E = None \<or> GEMINI_API_KEY E = Some []"
  shows "Post r \<notin> set (snd (upload_doc E file))"
  using assms
  by (auto simp: upload_doc_def upload_doc_try_def call_gemini_api_no_key
      split: sum.splits if_splits)

lemma example_extract_text:
  "extract_text (example_env_no_key [Page (Inr (lit ''Policy A''))]) bytes = Inr (lit ''Policy A'')"
proof -
  have "strip (lit ''Policy A'') = lit ''Policy A''"
    by (rule strip_id) (simp_all add: lit_def isspace_def)
  then show ?thesis
    by (simp add: extract_text_def example_env_no_key_def example_env_def)
qed

lemma upload_doc_long_example:
  "upload_doc (example_env long_pdf (reply (lit ''- a summary'')))
     \<lparr>filename = Some (lit ''policy.pdf''), content_type = Some (lit ''application/pdf''),
      contents = [37, 80, 68, 70]\<rparr>
   = (Inr (JDict [(lit ''status'', JStr (lit ''success'')),
                  (lit ''filename'', JStr (lit ''policy.pdf'')),
                  (lit ''summary'', JStr (lit ''- a summary'')),
                  (lit ''full_text'', JStr (replicate 9000 97))]),
      [FileRead, FitzOpen [37, 80, 68, 70],
       Post (gemini_request (lit ''secret-key'') (summary_prompt (replicate 9000 97)) False)])"
proof -
  let ?E = "example_env long_pdf (reply (lit ''- a summary''))"
  let ?f = "\<lparr>filename = Some (lit ''policy.pdf''), content_type = Some (lit ''application/pdf''),
      contents = [37, 80, 68, 70]\<rparr>"
  have "strip (replicate 9000 97) = replicate 9000 97"
    by (rule strip_id) (simp_all add: isspace_def hd_replicate last_replicate)
  then have "extract_text ?E (contents ?f) = Inr (replicate 9000 97)"
    by (simp add: extract_text_def example_env_def long_pdf_def)
  from upload_doc_ok [OF _ this _ call_gemini_api_reply]
  show ?thesis by simp
qed

subsection \<open>The structured endpoints\<close>

lemma structured_ok:
  "call_gemini_api E prompt True = (Inr (JStr t), evs) \<Longrightarrow> json_loads E t = Inr v \<Longrightarrow>
   structured E prompt = (Inr v, evs)"
  by (simp add: structured_def loads_response_def)

lemma structured_not_json:
  "call_gemini_api E prompt True = (Inr (JStr t), evs) \<Longrightarrow>
   json_loads E t = Inl (JSONDecodeError m) \<Longrightarrow>
   structured E prompt = (Inl (HTTPException 500 (lit ''AI did not return valid JSON.'')), evs)"
  by (simp add: structured_def loads_response_def)

lemma structured_success:
  "structured E prompt = (Inr v, evs) \<Longrightarrow>
   \<exists>t. call_gemini_api E prompt True = (Inr (JStr t), evs) \<and> json_loads E t = Inr v"
  by (auto simp: structured_def loads_response_def
      split: prod.splits sum.splits json.splits exn.splits)

lemma structured_events: "set (snd (structured E prompt)) \<subseteq> range Post"
  by (auto simp: structured_def call_gemini_api_def
      split: prod.splits sum.splits option.splits list.splits if_splits)

lemma structured_no_key:
  "GEMINI_API_KEY E = None \<or> GEMINI_API_KEY E = Some [] \<Longrightarrow>
   structured E prompt = (Inl (HTTPException 500 (lit ''GEMINI_API_KEY not configured.'')), [])"
  by (simp add: structured_def call_gemini_api_no_key)

lemma example_loads_six:
  "json_loads (example_env doc resp) six_hospitals_text = Inr six_hospitals"
  by (simp add: example_env_def example_loads_def)

lemma example_loads_claim:
  "json_loads (example_env doc resp) claim_decision_text = Inr claim_decision"
  by (simp add: example_env_def example_loads_def six_hospitals_text_def claim_decision_text_def)

lemma example_loads_sorry:
  "json_loads (example_env doc resp) (lit ''Sorry, I cannot help with that.'') =
     Inl (JSONDecodeError (lit ''Expecting value: line 1 column 1 (char 0)''))"
  by (simp add: example_env_def example_loads_def six_hospitals_text_def claim_decision_text_def)

lemma find_hospitals_example:
  "find_hospitals (example_env [] (reply six_hospitals_text)) (lit ''Mumbai'') =
     (Inr six_hospitals,
      [Post (gemini_request (lit ''secret-key'') (find_hospitals_prompt (lit ''Mumbai'')) True)])"
  unfolding find_hospitals_def
  by (rule structured_ok [OF call_gemini_api_reply example_loads_six])

subsection \<open>The response model\<close>

lemma each_length: "each f xs = Some ys \<Longrightarrow> length ys = length xs"
  by (induction xs arbitrary: ys) (auto split: option.splits)

text \<open>
  A value the model accepts has a \<open>hospitals\<close> list, and the validated value has one
  entry for each of its entries.
\<close>

lemma FindHospitalsResponse_hospitals:
  assumes "FindHospitalsResponse P v = Some r"
  shows "\<exists>kvs hs. model_fields P v = Some kvs \<and> map_of kvs (lit ''hospitals'') = Some (JList hs)
           \<and> length (hospitals r) = length hs"
  using assms
  by (auto simp: FindHospitalsResponse_def required_field_def list_field_def hospitals_def
      dest: each_length split: option.splits json.splits)

lemma model_fields_dict: "model_fields P (JDict kvs) = Some kvs"
  by (simp add: model_fields_def)

lemma FindHospitalsResponse_six: "FindHospitalsResponse P six_hospitals = Some six_hospitals"
  by (simp add: FindHospitalsResponse_def model_fields_def required_field_def list_field_def
      six_hospitals_def Hospital_def str_field_def)

lemma find_hospitals_route_example:
  "find_hospitals_route P (example_env [] (reply six_hospitals_text)) (lit ''Mumbai'') =
     (Response200 six_hospitals,
      [Post (gemini_request (lit ''secret-key'') (find_hospitals_prompt (lit ''Mumbai'')) True)])"
  by (simp add: find_hospitals_route_def find_hospitals_example respond_def FindHospitalsResponse_six)

text \<open>
  A decoded value without a \<open>hospitals\<close> entry is a value the handler returns and the
  route answers with status 500.
\<close>

lemma find_hospitals_route_refused:
  "find_hospitals_route P (example_env [] (reply claim_decision_text)) (lit ''Mumbai'') =
     (InternalServerError,
      [Post (gemini_request (lit ''secret-key'') (find_hospitals_prompt (lit ''Mumbai'')) True)])"
proof -
  have "find_hospitals (example_env [] (reply claim_decision_text)) (lit ''Mumbai'') =
     (Inr claim_decision,
      [Post (gemini_request (lit ''secret-key'') (find_hospitals_prompt (lit ''Mumbai'')) True)])"
    unfolding find_hospitals_def
    by (rule structured_ok [OF call_gemini_api_reply example_loads_claim])
  moreover have "FindHospitalsResponse P claim_decision = None"
    by (simp add: FindHospitalsResponse_def model_fields_def required_field_def claim_decision_def)
  ultimately show ?thesis
    by (simp add: find_hospitals_route_def respond_def)
qed

section \<open>The claims\<close>

text \<open>
  C1. The claim: an upload declared \<open>application/pdf\<close> whose concatenated page text is
  empty after stripping fails with status 400. What the code does on a PDF of one blank
  page: the handler answers with status 500, and the 400 it raised survives only inside
  the detail text (\<open>upload_doc_empty_text\<close> shows it for every such upload).
\<close>

theorem upload_doc_blank_pdf:
  "upload_doc (example_env [Page (Inr [])] (reply (lit ''- a summary'')))
     \<lparr>filename = Some (lit ''blank.pdf''), content_type = Some (lit ''application/pdf''),
      contents = [37, 80, 68, 70]\<rparr>
   = (Inl (HTTPException 500 (lit ''PDF processing error: 400: PDF is empty or non-readable.'')),
      [FileRead, FitzOpen [37, 80, 68, 70]])"
proof -
  have "extract_text (example_env [Page (Inr [])] (reply (lit ''- a summary''))) [37, 80, 68, 70] = Inr []"
    by (simp add: extract_text_def example_env_def)
  then show ?thesis
    by (simp add: upload_doc_empty_text example_env_def example_str_of_exception_def
        decimal_400 lit_append)
qed

text \<open>
  C2. The claim: a gateway call whose upstream response has a status outside 2xx fails
  with status 500 and carries the remote error message. What the code does on a
  response with status 400 and an error body: the call fails with status 503, and the
  detail is the text of the \<open>HTTPError\<close>; the message in the body is never read
  (\<open>call_gemini_api_http_error\<close> shows the 503 for every status from 400 to 599).
\<close>

theorem call_gemini_api_error_response:
  "call_gemini_api (example_env [] error_response) (lit ''What is copay?'') False =
     (Inl (HTTPException 503 (lit ''Could not connect to AI service: 400 Client Error: Bad Request for url: https://generativelanguage.googleapis.com/v1beta/models/gemini-1.5-flash-latest:generateContent'')),
      [Post (gemini_request (lit ''secret-key'') (lit ''What is copay?'') False)])"
proof -
  have "call_gemini_api (example_env [] error_response) (lit ''What is copay?'') False =
     (Inl (HTTPException 503 (lit ''Could not connect to AI service: '' @
        str_of_exception (example_env [] error_response) (HTTPError (status_code error_response)))),
      [Post (gemini_request (lit ''secret-key'') (lit ''What is copay?'') False)])"
    by (rule call_gemini_api_http_error) (simp_all add: example_env_def error_response_def)
  then show ?thesis
    by (simp add: example_env_def error_response_def example_str_of_exception_def
        decimal_400 lit_append)
qed

text \<open>
  C3, as the code has it. The claim bounds the \<open>hospitals\<close> list of every successful
  response of \<open>/find-hospitals\<close> by 5. Neither the handler nor the response model
  enforces the bound, which stands only in the prompt: in a successful response the
  \<open>hospitals\<close> list has exactly as many entries as the \<open>hospitals\<close> list of the value
  decoded from the gateway's text, so it has at most 5 entries when the gateway
  returned at most 5.
\<close>

theorem find_hospitals_route_length:
  assumes "find_hospitals_route P E location = (Response200 r, evs)"
  shows "\<exists>t v kvs hs.
     call_gemini_api E (find_hospitals_prompt location) True = (Inr (JStr t), evs)
   \<and> json_loads E t = Inr v
   \<and> FindHospitalsResponse P v = Some r
   \<and> model_fields P v = Some kvs
   \<and> map_of kvs (lit ''hospitals'') = Some (JList hs)
   \<and> length (hospitals r) = length hs"
proof -
  from assms obtain v where h: "find_hospitals E location = (Inr v, evs)"
    and m: "FindHospitalsResponse P v = Some r"
    by (auto simp: find_hospitals_route_def respond_def
        split: prod.splits sum.splits option.splits exn.splits)
  from h obtain t where "call_gemini_api E (find_hospitals_prompt location) True = (Inr (JStr t), evs)"
    and "json_loads E t = Inr v"
    unfolding find_hospitals_def by (blast dest: structured_success)
  with m FindHospitalsResponse_hospitals [OF m] show ?thesis by blast
qed

theorem find_hospitals_route_length_witness:
  "\<exists>t v kvs hs.
     call_gemini_api (example_env [] (reply six_hospitals_text))
       (find_hospitals_prompt (lit ''Mumbai'')) True =
      (Inr (JStr t),
       [Post (gemini_request (lit ''secret-key'') (find_hospitals_prompt (lit ''Mumbai'')) True)])
   \<and> json_loads (example_env [] (reply six_hospitals_text)) t = Inr v
   \<and> FindHospitalsResponse pydantic2 v = Some six_hospitals
   \<and> model_fields pydantic2 v = Some kvs
   \<and> map_of kvs (lit ''hospitals'') = Some (JList hs)
   \<and> length (hospitals six_hospitals) = length hs"
  using find_hospitals_route_length [OF find_hospitals_route_example] .

text \<open>
  C3, the claim as stated fails: when the gateway's text lists six hospitals, the
  handler returns all six in a value that has the declared shape, and the route answers
  with status 200 and all six.
\<close>

theorem find_hospitals_six:
  "find_hospitals (example_env [] (reply six_hospitals_text)) (lit ''Mumbai'') =
     (Inr six_hospitals,
      [Post (gemini_request (lit ''secret-key'') (find_hospitals_prompt (lit ''Mumbai'')) True)])
   \<and> valid_FindHospitalsResponse six_hospitals
   \<and> length (hospitals six_hospitals) = 6
   \<and> \<not> length (hospitals six_hospitals) \<le> 5
   \<and> find_hospitals_route pydantic2 (example_env [] (reply six_hospitals_text)) (lit ''Mumbai'') =
     (Response200 six_hospitals,
      [Post (gemini_request (lit ''secret-key'') (find_hospitals_prompt (lit ''Mumbai'')) True)])"
proof -
  note find_hospitals_example
  moreover have "valid_FindHospitalsResponse six_hospitals"
    by (simp add: valid_FindHospitalsResponse_def six_hospitals_def valid_Hospital_def)
  moreover have "length (hospitals six_hospitals) = 6"
    by (simp add: hospitals_def six_hospitals_def)
  moreover note find_hospitals_route_example [of pydantic2]
  ultimately show ?thesis by simp
qed

text \<open>
  C4. Without an API key (\<open>None\<close> or the empty string) the helper fails with status 500
  and the detail \<open>GEMINI_API_KEY not configured.\<close> before it builds a request. So \<open>/ask\<close>,
  \<open>/check-claim\<close>, \<open>/recommend-policy\<close>, \<open>/find-hospitals\<close> and \<open>/analytics\<close> fail with that
  configuration error and have no effect at all; \<open>/upload-doc\<close> sends no request either,
  and an upload that reaches the helper (a PDF whose stripped text is not empty) fails
  with status 500 and a detail made from the configuration error.
\<close>

theorem no_api_key_no_request:
  assumes "GEMINI_API_KEY E = None \<or> GEMINI_API_KEY E = Some []"
  shows
   "call_gemini_api E prompt is_json_output
      = (Inl (HTTPException 500 (lit ''GEMINI_API_KEY not configured.'')), [])
  \<and> ask_question E data = (Inl (HTTPException 500 (lit ''GEMINI_API_KEY not configured.'')), [])
  \<and> check_claim E claim_type document_context' bill
      = (Inl (HTTPException 500 (lit ''GEMINI_API_KEY not configured.'')), [])
  \<and> recommend_policy E user_age user_gender health_conditions coverage budget
      = (Inl (HTTPException 500 (lit ''GEMINI_API_KEY not configured.'')), [])
  \<and> find_hospitals E location = (Inl (HTTPException 500 (lit ''GEMINI_API_KEY not configured.'')), [])
  \<and> get_analytics_data E = (Inl (HTTPException 500 (lit ''GEMINI_API_KEY not configured.'')), [])
  \<and> (\<forall>r. Post r \<notin> set (snd (upload_doc E file)))
  \<and> (content_type file = Some (lit ''application/pdf'')
       \<and> extract_text E (contents file) = Inr txt \<and> txt \<noteq> []
     \<longrightarrow> upload_doc E file =
         (Inl (HTTPException 500 (lit ''PDF processing error: '' @
            str_of_exception E (HTTPException 500 (lit ''GEMINI_API_KEY not configured.'')))),
          [FileRead, FitzOpen (contents file)]))"
proof -
  note key = call_gemini_api_no_key [OF assms]
  have "ask_question E data = (Inl (HTTPException 500 (lit ''GEMINI_API_KEY not configured.'')), [])"
    by (simp add: ask_question_def key)
  moreover have "\<forall>r. Post r \<notin> set (snd (upload_doc E file))"
    using upload_doc_no_key_events [OF assms] by blast
  moreover have "content_type file = Some (lit ''application/pdf'')
       \<and> extract_text E (contents file) = Inr txt \<and> txt \<noteq> []
     \<longrightarrow> upload_doc E file =
         (Inl (HTTPException 500 (lit ''PDF processing error: '' @
            str_of_exception E (HTTPException 500 (lit ''GEMINI_API_KEY not configured.'')))),
          [FileRead, FitzOpen (contents file)])"
    by (simp add: upload_doc_gateway_error [OF _ _ _ key])
  ultimately show ?thesis
    by (simp add: key check_claim_def recommend_policy_def find_hospitals_def
        get_analytics_data_def structured_no_key [OF assms])
qed

theorem no_api_key_no_request_witness:
  "call_gemini_api (example_env_no_key [Page (Inr (lit ''Policy A''))]) (lit ''What is copay?'') False
      = (Inl (HTTPException 500 (lit ''GEMINI_API_KEY not configured.'')), [])
  \<and> ask_question (example_env_no_key [Page (Inr (lit ''Policy A''))])
        \<lparr>question = lit ''What is copay?'', document_context = None\<rparr>
      = (Inl (HTTPException 500 (lit ''GEMINI_API_KEY not configured.'')), [])
  \<and> check_claim (example_env_no_key [Page (Inr (lit ''Policy A''))])
        (lit ''Hospitalization'') (lit ''Policy A'') None
      = (Inl (HTTPException 500 (lit ''GEMINI_API_KEY not configured.'')), [])
  \<and> recommend_policy (example_env_no_key [Page (Inr (lit ''Policy A''))])
        (lit ''30'') (lit ''F'') (lit ''none'') (lit ''family'') (lit ''20000'')
      = (Inl (HTTPException 500 (lit ''GEMINI_API_KEY not configured.'')), [])
  \<and> find_hospitals (example_env_no_key [Page (Inr (lit ''Policy A''))]) (lit ''Mumbai'')
      = (Inl (HTTPException 500 (lit ''GEMINI_API_KEY not configured.'')), [])
  \<and> get_analytics_data (example_env_no_key [Page (Inr (lit ''Policy A''))])
      = (Inl (HTTPException 500 (lit ''GEMINI_API_KEY not configured.'')), [])
  \<and> (\<forall>r. Post r \<notin> set (snd (upload_doc (example_env_no_key [Page (Inr (lit ''Policy A''))])
        \<lparr>filename = Some (lit ''policy.pdf''), content_type = Some (lit ''application/pdf''),
         contents = [37, 80, 68, 70]\<rparr>)))
  \<and> upload_doc (example_env_no_key [Page (Inr (lit ''Policy A''))])
        \<lparr>filename = Some (lit ''policy.pdf''), content_type = Some (lit ''application/pdf''),
         contents = [37, 80, 68, 70]\<rparr>
      = (Inl (HTTPException 500 (lit ''PDF processing error: 500: GEMINI_API_KEY not configured.'')),
         [FileRead, FitzOpen [37, 80, 68, 70]])"
proof -
  let ?E = "example_env_no_key [Page (Inr (lit ''Policy A''))]"
  let ?f = "\<lparr>filename = Some (lit ''policy.pdf''), content_type = Some (lit ''application/pdf''),
         contents = [37, 80, 68, 70]\<rparr>"
  have key: "GEMINI_API_KEY ?E = None \<or> GEMINI_API_KEY ?E = Some []"
    by (simp add: example_env_no_key_def)
  have str: "str_of_exception ?E (HTTPException 500 (lit ''GEMINI_API_KEY not configured.''))
      = lit ''500: GEMINI_API_KEY not configured.''"
    by (simp add: example_env_no_key_def example_env_def example_str_of_exception_def
        decimal_500 lit_append)
  show ?thesis
    using no_api_key_no_request [OF key, of _ _ _ _ _ _ _ _ _ _ _ _ ?f "lit ''Policy A''"]
    by (simp add: example_extract_text str lit_append)
qed

text \<open>
  C5. An upload whose declared content type is not \<open>application/pdf\<close> (or is absent)
  fails with status 400 and the detail \<open>Only PDF files are allowed.\<close>, and the call has no
  effect at all: the file is not read, no byte stream is opened as a PDF and no request
  is sent.
\<close>

theorem upload_doc_rejects_non_pdf:
  "content_type file \<noteq> Some (lit ''application/pdf'') \<Longrightarrow>
   upload_doc E file = (Inl (HTTPException 400 (lit ''Only PDF files are allowed.'')), [])"
  by (simp add: upload_doc_def)

theorem upload_doc_rejects_non_pdf_witness:
  "content_type \<lparr>filename = Some (lit ''notes.txt''), content_type = Some (lit ''text/plain''),
      contents = [104, 105]\<rparr> \<noteq> Some (lit ''application/pdf'')
   \<and> upload_doc (example_env [Page (Inr (lit ''hi''))] (reply (lit ''- a summary'')))
     \<lparr>filename = Some (lit ''notes.txt''), content_type = Some (lit ''text/plain''),
      contents = [104, 105]\<rparr>
   = (Inl (HTTPException 400 (lit ''Only PDF files are allowed.'')), [])"
  using upload_doc_rejects_non_pdf
    [of "\<lparr>filename = Some (lit ''notes.txt''), content_type = Some (lit ''text/plain''), contents = [104, 105]\<rparr>"
        "example_env [Page (Inr (lit ''hi''))] (reply (lit ''- a summary''))"]
  by simp

text \<open>
  C6. When the bytes open as a PDF, every page returns its text and the texts hold at
  least one character that is not whitespace (the text is extractable: it does not
  vanish under trimming), the extractor returns the texts of the pages in document
  order, joined with nothing between them and stripped. The result is not empty, it
  differs from the joined text by a run of whitespace at either end, and it neither
  starts nor ends with whitespace.
\<close>

theorem extract_text_pages:
  assumes "fitz_open E bytes = Inr doc"
    and "map get_text doc = map Inr ts"
    and "\<exists>c\<in>set (concat ts). \<not> isspace c"
  shows "extract_text E bytes = Inr (strip (concat ts))
    \<and> strip (concat ts) \<noteq> []
    \<and> (\<exists>l r. concat ts = l @ strip (concat ts) @ r \<and> list_all isspace l \<and> list_all isspace r)
    \<and> \<not> isspace (hd (strip (concat ts)))
    \<and> \<not> isspace (last (strip (concat ts)))"
proof -
  from assms(2) have "page_texts doc = Inr ts" by (simp add: page_texts_iff)
  with assms(1) have "extract_text E bytes = Inr (strip (concat ts))"
    by (simp add: extract_text_def)
  moreover from assms(3) have ne: "strip (concat ts) \<noteq> []" by (rule strip_nonempty)
  moreover note strip_split [of "concat ts"] strip_ends [OF ne]
  ultimately show ?thesis by blast
qed

theorem extract_text_pages_witness:
  "extract_text
     (example_env [Page (Inr (lit '' Policy A\<newline>'')), Page (Inr (lit ''covers B \<newline>''))]
        (reply (lit ''- a summary'')))
     [37, 80, 68, 70]
   = Inr (lit ''Policy A\<newline>covers B'')
   \<and> strip (concat [lit '' Policy A\<newline>'', lit ''covers B \<newline>'']) = lit ''Policy A\<newline>covers B''
   \<and> lit ''Policy A\<newline>covers B'' \<noteq> []
   \<and> (\<exists>l r. concat [lit '' Policy A\<newline>'', lit ''covers B \<newline>'']
             = l @ lit ''Policy A\<newline>covers B'' @ r
          \<and> list_all isspace l \<and> list_all isspace r)
   \<and> \<not> isspace (hd (lit ''Policy A\<newline>covers B''))
   \<and> \<not> isspace (last (lit ''Policy A\<newline>covers B''))"
proof -
  let ?doc = "[Page (Inr (lit '' Policy A\<newline>'')), Page (Inr (lit ''covers B \<newline>''))]"
  let ?ts = "[lit '' Policy A\<newline>'', lit ''covers B \<newline>'']"
  let ?E = "example_env ?doc (reply (lit ''- a summary''))"
  have 1: "fitz_open ?E [37, 80, 68, 70] = Inr ?doc"
    by (simp add: example_env_def)
  have 2: "map get_text ?doc = map Inr ?ts"
    by simp
  have "80 \<in> set (concat ?ts)" "\<not> isspace 80"
    by (simp_all add: lit_def isspace_def)
  then have 3: "\<exists>c\<in>set (concat ?ts). \<not> isspace c"
    by blast
  have 4: "strip (concat ?ts) = lit ''Policy A\<newline>covers B''"
    by (simp add: strip_def lit_def isspace_def)
  show ?thesis
    using extract_text_pages [OF 1 2 3] unfolding 4 by simp
qed

text \<open>
  C7. For each of \<open>/check-claim\<close>, \<open>/recommend-policy\<close>, \<open>/find-hospitals\<close> and
  \<open>/analytics\<close>: when the helper returns a text and \<open>json.loads\<close> decodes it to a value,
  the handler returns that very value and adds no effect of its own. This holds for
  every decoded value, so in particular for one of the endpoint's declared shape.
\<close>

theorem structured_endpoints_pass_through:
  assumes "json_loads E t = Inr v"
  shows
   "(call_gemini_api E (check_claim_prompt claim_type document_context' bill) True = (Inr (JStr t), evs1)
       \<longrightarrow> check_claim E claim_type document_context' bill = (Inr v, evs1))
  \<and> (call_gemini_api E (recommend_policy_prompt user_age user_gender health_conditions coverage budget) True
         = (Inr (JStr t), evs2)
       \<longrightarrow> recommend_policy E user_age user_gender health_conditions coverage budget = (Inr v, evs2))
  \<and> (call_gemini_api E (find_hospitals_prompt location) True = (Inr (JStr t), evs3)
       \<longrightarrow> find_hospitals E location = (Inr v, evs3))
  \<and> (call_gemini_api E analytics_prompt True = (Inr (JStr t), evs4)
       \<longrightarrow> get_analytics_data E = (Inr v, evs4))"
  using assms
  by (simp add: check_claim_def recommend_policy_def find_hospitals_def get_analytics_data_def
      structured_ok)

theorem structured_endpoints_pass_through_witness:
  "check_claim (example_env [] (reply claim_decision_text)) (lit ''Hospitalization'')
      (lit ''The policy covers hospitalization.'') None =
     (Inr claim_decision,
      [Post (gemini_request (lit ''secret-key'')
         (check_claim_prompt (lit ''Hospitalization'') (lit ''The policy covers hospitalization.'') None) True)])
   \<and> recommend_policy (example_env [] (reply claim_decision_text))
        (lit ''30'') (lit ''F'') (lit ''none'') (lit ''family'') (lit ''20000'') =
     (Inr claim_decision,
      [Post (gemini_request (lit ''secret-key'')
         (recommend_policy_prompt (lit ''30'') (lit ''F'') (lit ''none'') (lit ''family'') (lit ''20000'')) True)])
   \<and> find_hospitals (example_env [] (reply claim_decision_text)) (lit ''Mumbai'') =
     (Inr claim_decision,
      [Post (gemini_request (lit ''secret-key'') (find_hospitals_prompt (lit ''Mumbai'')) True)])
   \<and> get_analytics_data (example_env [] (reply claim_decision_text)) =
     (Inr claim_decision, [Post (gemini_request (lit ''secret-key'') analytics_prompt True)])"
  using structured_endpoints_pass_through [OF example_loads_claim, of "[]" "reply claim_decision_text"]
  by (simp add: call_gemini_api_reply)

text \<open>
  C8. For each of the four structured endpoints: when the helper returns a text on
  which \<open>json.loads\<close> raises \<open>JSONDecodeError\<close>, the handler fails with status 500 and the
  detail \<open>AI did not return valid JSON.\<close>; it returns no value, and its effects are those
  of the one helper call: a single request, carrying the handler's prompt.
\<close>

theorem structured_endpoints_reject_non_json:
  assumes "json_loads E t = Inl (JSONDecodeError m)"
  shows
   "(call_gemini_api E (check_claim_prompt claim_type document_context' bill) True = (Inr (JStr t), evs1)
       \<longrightarrow> check_claim E claim_type document_context' bill
           = (Inl (HTTPException 500 (lit ''AI did not return valid JSON.'')), evs1)
         \<and> (\<exists>key. evs1 = [Post (gemini_request key
               (check_claim_prompt claim_type document_context' bill) True)]))
  \<and> (call_gemini_api E (recommend_policy_prompt user_age user_gender health_conditions coverage budget) True
         = (Inr (JStr t), evs2)
       \<longrightarrow> recommend_policy E user_age user_gender health_conditions coverage budget
           = (Inl (HTTPException 500 (lit ''AI did not return valid JSON.'')), evs2)
         \<and> (\<exists>key. evs2 = [Post (gemini_request key
               (recommend_policy_prompt user_age user_gender health_conditions coverage budget) True)]))
  \<and> (call_gemini_api E (find_hospitals_prompt location) True = (Inr (JStr t), evs3)
       \<longrightarrow> find_hospitals E location
           = (Inl (HTTPException 500 (lit ''AI did not return valid JSON.'')), evs3)
         \<and> (\<exists>key. evs3 = [Post (gemini_request key (find_hospitals_prompt location) True)]))
  \<and> (call_gemini_api E analytics_prompt True = (Inr (JStr t), evs4)
       \<longrightarrow> get_analytics_data E
           = (Inl (HTTPException 500 (lit ''AI did not return valid JSON.'')), evs4)
         \<and> (\<exists>key. evs4 = [Post (gemini_request key analytics_prompt True)]))"
  using assms
  by (auto simp: check_claim_def recommend_policy_def find_hospitals_def get_analytics_data_def
      structured_not_json dest: call_gemini_api_ok_events)

theorem structured_endpoints_reject_non_json_witness:
  "check_claim (example_env [] (reply (lit ''Sorry, I cannot help with that.'')))
      (lit ''Hospitalization'') (lit ''The policy covers hospitalization.'') None =
     (Inl (HTTPException 500 (lit ''AI did not return valid JSON.'')),
      [Post (gemini_request (lit ''secret-key'')
         (check_claim_prompt (lit ''Hospitalization'') (lit ''The policy covers hospitalization.'') None) True)])
   \<and> recommend_policy (example_env [] (reply (lit ''Sorry, I cannot help with that.'')))
        (lit ''30'') (lit ''F'') (lit ''none'') (lit ''family'') (lit ''20000'') =
     (Inl (HTTPException 500 (lit ''AI did not return valid JSON.'')),
      [Post (gemini_request (lit ''secret-key'')
         (recommend_policy_prompt (lit ''30'') (lit ''F'') (lit ''none'') (lit ''family'') (lit ''20000'')) True)])
   \<and> find_hospitals (example_env [] (reply (lit ''Sorry, I cannot help with that.''))) (lit ''Mumbai'') =
     (Inl (HTTPException 500 (lit ''AI did not return valid JSON.'')),
      [Post (gemini_request (lit ''secret-key'') (find_hospitals_prompt (lit ''Mumbai'')) True)])
   \<and> get_analytics_data (example_env [] (reply (lit ''Sorry, I cannot help with that.''))) =
     (Inl (HTTPException 500 (lit ''AI did not return valid JSON.'')),
      [Post (gemini_request (lit ''secret-key'') analytics_prompt True)])"
  using structured_endpoints_reject_non_json
    [OF example_loads_sorry, of "[]" "reply (lit ''Sorry, I cannot help with that.'')"]
  by (simp add: call_gemini_api_reply)

text \<open>
  C9. Two \<open>/check-claim\<close> requests with the same claim type and context that both carry
  a bill send the same prompt and have the same outcome and effects, whatever the
  bills' names, types and bytes are; and the handler never reads a file.
\<close>

theorem check_claim_ignores_bill_content:
  "check_claim_prompt claim_type document_context' (Some bill1)
     = check_claim_prompt claim_type document_context' (Some bill2)
   \<and> check_claim E claim_type document_context' (Some bill1)
     = check_claim E claim_type document_context' (Some bill2)
   \<and> FileRead \<notin> set (snd (check_claim E claim_type document_context' bill))"
proof -
  have "check_claim_prompt claim_type document_context' (Some bill1)
     = check_claim_prompt claim_type document_context' (Some bill2)"
    by (simp add: check_claim_prompt_def)
  moreover from this have "check_claim E claim_type document_context' (Some bill1)
     = check_claim E claim_type document_context' (Some bill2)"
    by (simp add: check_claim_def)
  moreover have "FileRead \<notin> set (snd (check_claim E claim_type document_context' bill))"
    using structured_events [of E "check_claim_prompt claim_type document_context' bill"]
    by (auto simp: check_claim_def)
  ultimately show ?thesis by simp
qed

text \<open>
  C10. A successful \<open>/upload-doc\<close> request has read the file, opened it and sent exactly
  one request, whose prompt is the fixed instruction followed by the first 8000
  characters of the extracted text; the \<open>full_text\<close> field of the response is the whole
  extracted text.
\<close>

theorem upload_doc_prompt_and_full_text:
  assumes "upload_doc E file = (Inr r, evs)"
  shows "\<exists>txt key summary.
     extract_text E (contents file) = Inr txt
   \<and> GEMINI_API_KEY E = Some key
   \<and> evs = [FileRead, FitzOpen (contents file),
            Post (gemini_request key
              (lit ''Summarize the following insurance policy in bullet points:\<newline>\<newline>'' @ take 8000 txt)
              False)]
   \<and> r = JDict [(lit ''status'', JStr (lit ''success'')),
                (lit ''filename'', (case filename file of None \<Rightarrow> JNull | Some n \<Rightarrow> JStr n)),
                (lit ''summary'', summary),
                (lit ''full_text'', JStr txt)]"
proof -
  from assms have pdf: "content_type file = Some (lit ''application/pdf'')"
    by (auto simp: upload_doc_def split: if_splits)
  with assms obtain evs' where tr: "upload_doc_try E file = (Inr r, evs')" and evs: "evs = FileRead # evs'"
    by (auto simp: upload_doc_def split: prod.splits sum.splits)
  from tr obtain s where s: "extract_text E (contents file) = Inr s" "s \<noteq> []"
    by (auto simp: upload_doc_try_def split: sum.splits if_splits)
  with tr obtain summary evs'' where
    call: "call_gemini_api E (summary_prompt s) False = (Inr summary, evs'')"
    and r: "r = JDict [(lit ''status'', JStr (lit ''success'')),
                (lit ''filename'', (case filename file of None \<Rightarrow> JNull | Some n \<Rightarrow> JStr n)),
                (lit ''summary'', summary),
                (lit ''full_text'', JStr s)]"
    and evs': "evs' = FitzOpen (contents file) # evs''"
    by (auto simp: upload_doc_try_def split: prod.splits sum.splits)
  from call_gemini_api_ok_events [OF call] obtain key where
    key: "GEMINI_API_KEY E = Some key" "evs'' = [Post (gemini_request key (summary_prompt s) False)]"
    by blast
  show ?thesis
    using s(1) key r evs evs' by (simp add: summary_prompt_def)
qed

theorem upload_doc_prompt_and_full_text_witness:
  "\<exists>txt key summary.
     extract_text (example_env long_pdf (reply (lit ''- a summary''))) [37, 80, 68, 70] = Inr txt
   \<and> GEMINI_API_KEY (example_env long_pdf (reply (lit ''- a summary''))) = Some key
   \<and> [FileRead, FitzOpen [37, 80, 68, 70],
       Post (gemini_request (lit ''secret-key'') (summary_prompt (replicate 9000 97)) False)]
      = [FileRead, FitzOpen [37, 80, 68, 70],
         Post (gemini_request key
           (lit ''Summarize the following insurance policy in bullet points:\<newline>\<newline>'' @ take 8000 txt)
           False)]
   \<and> JDict [(lit ''status'', JStr (lit ''success'')),
            (lit ''filename'', JStr (lit ''policy.pdf'')),
            (lit ''summary'', JStr (lit ''- a summary'')),
            (lit ''full_text'', JStr (replicate 9000 97))]
      = JDict [(lit ''status'', JStr (lit ''success'')),
               (lit ''filename'', JStr (lit ''policy.pdf'')),
               (lit ''summary'', summary),
               (lit ''full_text'', JStr txt)]"
  using upload_doc_prompt_and_full_text [OF upload_doc_long_example] by simp

end
